theory Spec2Isabelle
  imports Complex_Main "HOL-Library.Monad_Syntax"
begin

section \<open>The cost model of \<open>cost_calculator_app.py\<close>\<close>

text \<open>
  The only logic of the application is the function \<open>calculate_costs\<close>
  (lines 268 to 324): a chain of assignments to local variables followed by the
  construction of the returned dictionary, whose integer entries are cast with
  \<open>int(...)\<close>. Everything else in the file reads widgets and draws charts.

  Numbers. Python integers are unbounded and are modelled by \<^typ>\<open>int\<close>. Python
  floats are modelled by \<^typ>\<open>real\<close>: every arithmetic operation is taken to be
  exact. Rounding of the binary representation, infinities and NaN therefore do
  not occur here, and neither does the \<open>OverflowError\<close> that \<open>int(...)\<close> raises
  on an infinite float; the theorems below speak about the arithmetic the code
  writes down, not about IEEE 754 effects at the edge of the float range.

  Errors. The true division \<open>/\<close> of Python raises \<open>ZeroDivisionError\<close> on a zero
  divisor. In exact arithmetic this is the one exception the function can raise,
  and a computation that raises it has the value \<open>None\<close>.
\<close>

subsection \<open>Python primitives\<close>

definition py_truediv :: "real \<Rightarrow> real \<Rightarrow> real option" where
  \<comment> \<open>\<open>a / b\<close>; \<open>None\<close> is ZeroDivisionError\<close>
  "py_truediv a b = (if b = 0 then None else Some (a / b))"

definition py_int :: "real \<Rightarrow> int" where
  \<comment> \<open>\<open>int(x)\<close> of a float: the fractional part is dropped, rounding toward zero\<close>
  "py_int x = (if 0 \<le> x then \<lfloor>x\<rfloor> else \<lceil>x\<rceil>)"

definition py_max :: "real \<Rightarrow> real \<Rightarrow> real" where
  \<comment> \<open>\<open>max(a, b)\<close>: the first argument unless the second is strictly greater\<close>
  "py_max a b = (if a < b then b else a)"

subsection \<open>Arguments, local variables and the returned dictionary\<close>

text \<open>
  The eleven parameters of \<open>calculate_costs\<close>, in the order of line 268. The
  period, the target, the workers and the depreciation period are integers
  (the sidebar reads them with integer bounds, lines 41, 49, 95 and 116); the
  capacity and the module price are quotients computed at lines 57 and 71, and
  the prices and costs are numbers that the function only adds, multiplies and
  divides, so all of these are reals. A Python integer passed for one of them
  behaves as the real of the same value.
\<close>

record inputs =
  production_period_months :: int
  target_glab_sales :: int
  monthly_glab_capacity :: real
  optical_block_price :: real
  optical_quartz_price :: real
  other_parts_price :: real
  required_workers :: int
  annual_salary :: real
  initial_setup_cost :: real
  depreciation_period_years :: int
  optical_module_price_won :: real

text \<open>
  The local variables that the \<open>return\<close> statement reads, with the values they
  hold at line 305, before any cast.
\<close>

record locals =
  annual_glab_capacity :: real
  total_optical_modules :: int
  monthly_optical_modules :: real
  daily_optical_modules :: real
  production_feasible :: bool
  capacity_shortage :: real
  optical_block_manufacturing_cost :: real
  total_material_cost :: real
  total_labor_cost :: real
  total_production_cost :: real
  annual_depreciation :: real
  depreciation_cost :: real
  annual_revenue :: real
  annual_production_cost :: real
  annual_profit :: real
  profit_margin :: real

text \<open>The sixteen entries of the returned dictionary (lines 307 to 324).\<close>

record outputs =
  annual_glab_capacity :: real
  total_optical_modules :: int
  monthly_optical_modules :: int
  daily_optical_modules :: int
  production_feasible :: bool
  capacity_shortage :: int
  optical_block_manufacturing_cost :: int
  total_material_cost :: int
  total_labor_cost :: int
  total_production_cost :: int
  annual_depreciation :: int
  depreciation_cost :: int
  annual_revenue :: int
  annual_production_cost :: int
  annual_profit :: int
  profit_margin :: real

subsection \<open>\<open>calculate_costs\<close>\<close>

text \<open>
  Lines 273 to 305: the assignments, in the order of the source. Each quotient
  is computed by \<open>py_truediv\<close>; where the source divides inside a larger
  expression, the quotient is bound to a name of its own first
  (\<open>capacity_used\<close>, \<open>period_years\<close>, \<open>annual_factor\<close>, \<open>ratio\<close>).
\<close>

definition calculate_locals :: "inputs \<Rightarrow> locals option" where
  "calculate_locals inp = do {
     let annual_glab_capacity = monthly_glab_capacity inp * 12;
     let modules_per_glab = (12::int);
     let total_optical_modules = target_glab_sales inp * modules_per_glab;
     monthly_optical_modules \<leftarrow>
       py_truediv (of_int total_optical_modules) (of_int (production_period_months inp));
     daily_optical_modules \<leftarrow> py_truediv monthly_optical_modules 30;
     required_glab_per_month \<leftarrow>
       py_truediv (of_int (target_glab_sales inp)) (of_int (production_period_months inp));
     let production_feasible = (required_glab_per_month \<le> monthly_glab_capacity inp);
     capacity_used \<leftarrow>
       py_truediv (annual_glab_capacity * of_int (production_period_months inp)) 12;
     let capacity_shortage = py_max 0 (of_int (target_glab_sales inp) - capacity_used);
     let optical_quartz_cost_per_block = optical_quartz_price inp * 16;
     let optical_block_manufacturing_cost =
       optical_block_price inp + optical_quartz_cost_per_block + other_parts_price inp;
     let total_material_cost = optical_block_manufacturing_cost * of_int total_optical_modules;
     period_years \<leftarrow> py_truediv (of_int (production_period_months inp)) 12;
     let total_labor_cost = annual_salary inp * of_int (required_workers inp) * period_years;
     annual_depreciation \<leftarrow>
       py_truediv (initial_setup_cost inp) (of_int (depreciation_period_years inp));
     period_years' \<leftarrow> py_truediv (of_int (production_period_months inp)) 12;
     let depreciation_cost = annual_depreciation * period_years';
     let total_production_cost = total_material_cost + total_labor_cost + depreciation_cost;
     annual_factor \<leftarrow> py_truediv 12 (of_int (production_period_months inp));
     let annual_optical_modules = of_int total_optical_modules * annual_factor;
     let annual_revenue = annual_optical_modules * optical_module_price_won inp;
     annual_factor' \<leftarrow> py_truediv 12 (of_int (production_period_months inp));
     let annual_production_cost =
       (total_material_cost + total_labor_cost) * annual_factor' + annual_depreciation;
     let annual_profit = annual_revenue - annual_production_cost;
     profit_margin \<leftarrow>
       (if annual_revenue > 0
        then do { ratio \<leftarrow> py_truediv annual_profit annual_revenue; Some (ratio * 100) }
        else Some 0);
     Some \<lparr>locals.annual_glab_capacity = annual_glab_capacity,
           locals.total_optical_modules = total_optical_modules,
           locals.monthly_optical_modules = monthly_optical_modules,
           locals.daily_optical_modules = daily_optical_modules,
           locals.production_feasible = production_feasible,
           locals.capacity_shortage = capacity_shortage,
           locals.optical_block_manufacturing_cost = optical_block_manufacturing_cost,
           locals.total_material_cost = total_material_cost,
           locals.total_labor_cost = total_labor_cost,
           locals.total_production_cost = total_production_cost,
           locals.annual_depreciation = annual_depreciation,
           locals.depreciation_cost = depreciation_cost,
           locals.annual_revenue = annual_revenue,
           locals.annual_production_cost = annual_production_cost,
           locals.annual_profit = annual_profit,
           locals.profit_margin = profit_margin\<rparr>
   }"

text \<open>
  Lines 307 to 324: the dictionary. \<open>int\<close> of \<open>total_optical_modules\<close>, which
  is a Python integer already, changes nothing.
\<close>

definition return_dict :: "locals \<Rightarrow> outputs" where
  "return_dict l =
     \<lparr>outputs.annual_glab_capacity = locals.annual_glab_capacity l,
      outputs.total_optical_modules = locals.total_optical_modules l,
      outputs.monthly_optical_modules = py_int (locals.monthly_optical_modules l),
      outputs.daily_optical_modules = py_int (locals.daily_optical_modules l),
      outputs.production_feasible = locals.production_feasible l,
      outputs.capacity_shortage = py_int (locals.capacity_shortage l),
      outputs.optical_block_manufacturing_cost = py_int (locals.optical_block_manufacturing_cost l),
      outputs.total_material_cost = py_int (locals.total_material_cost l),
      outputs.total_labor_cost = py_int (locals.total_labor_cost l),
      outputs.total_production_cost = py_int (locals.total_production_cost l),
      outputs.annual_depreciation = py_int (locals.annual_depreciation l),
      outputs.depreciation_cost = py_int (locals.depreciation_cost l),
      outputs.annual_revenue = py_int (locals.annual_revenue l),
      outputs.annual_production_cost = py_int (locals.annual_production_cost l),
      outputs.annual_profit = py_int (locals.annual_profit l),
      outputs.profit_margin = locals.profit_margin l\<rparr>"

definition calculate_costs :: "inputs \<Rightarrow> outputs option" where
  "calculate_costs inp = map_option return_dict (calculate_locals inp)"

subsection \<open>Admissible arguments\<close>

text \<open>
  The ranges that the sidebar widgets of \<open>main\<close> enforce (lines 41 to 122) and
  that the data model states for the arguments: the period is 1 to 60 months,
  the depreciation period 1 to 20 years, target and workers are at least 1, the
  capacity is positive, prices and costs are not negative.
\<close>

definition valid_input :: "inputs \<Rightarrow> bool" where
  "valid_input inp \<longleftrightarrow>
     1 \<le> production_period_months inp \<and> production_period_months inp \<le> 60 \<and>
     1 \<le> target_glab_sales inp \<and>
     0 < monthly_glab_capacity inp \<and>
     0 \<le> optical_block_price inp \<and>
     0 \<le> optical_quartz_price inp \<and>
     0 \<le> other_parts_price inp \<and>
     1 \<le> required_workers inp \<and>
     0 \<le> annual_salary inp \<and>
     0 \<le> initial_setup_cost inp \<and>
     1 \<le> depreciation_period_years inp \<and> depreciation_period_years inp \<le> 20 \<and>
     0 \<le> optical_module_price_won inp"

subsection \<open>Concrete arguments\<close>

text \<open>
  The default values of the sidebar: twelve months, 600 units, a set price of
  5.0, which line 71 turns into \<open>5.0 * 10000000 / 12\<close> per module.
\<close>

definition scenario_A :: inputs where
  "scenario_A = \<lparr>production_period_months = 12, target_glab_sales = 600,
     monthly_glab_capacity = 50, optical_block_price = 140000,
     optical_quartz_price = 3750, other_parts_price = 1000, required_workers = 1,
     annual_salary = 40000000, initial_setup_cost = 30000000,
     depreciation_period_years = 5, optical_module_price_won = 50000000 / 12\<rparr>"






text \<open>Twelve modules at 1/32 each and no cost at all: a revenue of 0.375.\<close>

definition small_revenue_input :: inputs where
  "small_revenue_input = \<lparr>production_period_months = 12, target_glab_sales = 1,
     monthly_glab_capacity = 1 / 12, optical_block_price = 0,
     optical_quartz_price = 0, other_parts_price = 0, required_workers = 1,
     annual_salary = 0, initial_setup_cost = 0,
     depreciation_period_years = 1, optical_module_price_won = 1 / 32\<rparr>"


section \<open>Properties of the primitives\<close>

lemma py_truediv_eq_Some_iff: "py_truediv a b = Some q \<longleftrightarrow> b \<noteq> 0 \<and> q = a / b"
  by (auto simp: py_truediv_def)

lemma py_truediv_Some: "b \<noteq> 0 \<Longrightarrow> py_truediv a b = Some (a / b)"
  by (simp add: py_truediv_def)



lemma py_int_mono: "x \<le> y \<Longrightarrow> py_int x \<le> py_int y"
proof -
  assume xy: "x \<le> y"
  consider "0 \<le> x" | "y < 0" | "x < 0" "0 \<le> y" by linarith
  then show ?thesis
  proof cases
    case 1 with xy show ?thesis by (simp add: py_int_def floor_mono)
  next
    case 2 with xy show ?thesis by (simp add: py_int_def ceiling_mono)
  next
    case 3
    have "py_int x = \<lceil>x\<rceil>" "py_int y = \<lfloor>y\<rfloor>"
      using 3 by (simp_all add: py_int_def)
    moreover have "\<lceil>x\<rceil> \<le> 0" using 3(1) by (simp add: ceiling_le_iff)
    moreover have "0 \<le> \<lfloor>y\<rfloor>" using 3(2) by simp
    ultimately show ?thesis by linarith
  qed
qed


section \<open>The assignments of \<open>calculate_costs\<close>\<close>

lemma margin_Some:
  "(if r > 0 then do { ratio \<leftarrow> py_truediv p r; Some (ratio * 100) } else Some 0)
     = Some (if r > 0 then p / r * 100 else 0)"
  by (simp add: py_truediv_def)

text \<open>The two divisors that can be zero are the period and the depreciation period.\<close>

lemma calculate_locals_Some:
  assumes "production_period_months inp \<noteq> 0" "depreciation_period_years inp \<noteq> 0"
  shows "\<exists>l. calculate_locals inp = Some l"
proof -
  have m: "real_of_int (production_period_months inp) \<noteq> 0"
    and y: "real_of_int (depreciation_period_years inp) \<noteq> 0"
    using assms by simp_all
  have c: "(12::real) \<noteq> 0" "(30::real) \<noteq> 0" by simp_all
  show ?thesis
    unfolding calculate_locals_def Let_def margin_Some
    by (simp only: py_truediv_Some [OF m] py_truediv_Some [OF y] py_truediv_Some [OF c(1)]
          py_truediv_Some [OF c(2)] bind.simps) blast
qed

text \<open>
  When the function returns, every local variable is related to the arguments
  and to the variables assigned before it as its line of the source says.
\<close>

lemma calculate_locals_fields:
  assumes "calculate_locals inp = Some l"
  shows "production_period_months inp \<noteq> 0"
    and "depreciation_period_years inp \<noteq> 0"
    and "locals.annual_glab_capacity l = monthly_glab_capacity inp * 12"
    and "locals.total_optical_modules l = target_glab_sales inp * 12"
    and "locals.monthly_optical_modules l =
           of_int (locals.total_optical_modules l) / of_int (production_period_months inp)"
    and "locals.daily_optical_modules l = locals.monthly_optical_modules l / 30"
    and "locals.production_feasible l \<longleftrightarrow>
           of_int (target_glab_sales inp) / of_int (production_period_months inp)
             \<le> monthly_glab_capacity inp"
    and "locals.capacity_shortage l =
           py_max 0 (of_int (target_glab_sales inp)
             - locals.annual_glab_capacity l * of_int (production_period_months inp) / 12)"
    and "locals.optical_block_manufacturing_cost l =
           optical_block_price inp + optical_quartz_price inp * 16 + other_parts_price inp"
    and "locals.total_material_cost l =
           locals.optical_block_manufacturing_cost l * of_int (locals.total_optical_modules l)"
    and "locals.total_labor_cost l =
           annual_salary inp * of_int (required_workers inp)
             * (of_int (production_period_months inp) / 12)"
    and "locals.annual_depreciation l =
           initial_setup_cost inp / of_int (depreciation_period_years inp)"
    and "locals.depreciation_cost l =
           locals.annual_depreciation l * (of_int (production_period_months inp) / 12)"
    and "locals.total_production_cost l =
           locals.total_material_cost l + locals.total_labor_cost l + locals.depreciation_cost l"
    and "locals.annual_revenue l =
           of_int (locals.total_optical_modules l) * (12 / of_int (production_period_months inp))
             * optical_module_price_won inp"
    and "locals.annual_production_cost l =
           (locals.total_material_cost l + locals.total_labor_cost l)
             * (12 / of_int (production_period_months inp)) + locals.annual_depreciation l"
    and "locals.annual_profit l = locals.annual_revenue l - locals.annual_production_cost l"
    and "locals.profit_margin l =
           (if locals.annual_revenue l > 0
            then locals.annual_profit l / locals.annual_revenue l * 100 else 0)"
  using assms
  unfolding calculate_locals_def Let_def margin_Some bind_eq_Some_conv py_truediv_eq_Some_iff
  by (auto simp only: locals.select_convs of_int_eq_0_iff option.inject)

lemma calculate_costs_Some:
  "calculate_locals inp = Some l \<Longrightarrow> calculate_costs inp = Some (return_dict l)"
  by (simp add: calculate_costs_def)

text \<open>The function raises exactly when one of the two periods is zero.\<close>

lemma calculate_costs_None_iff:
  "calculate_costs inp = None \<longleftrightarrow>
     production_period_months inp = 0 \<or> depreciation_period_years inp = 0"
proof
  assume "calculate_costs inp = None"
  then have "calculate_locals inp = None" by (simp add: calculate_costs_def)
  then show "production_period_months inp = 0 \<or> depreciation_period_years inp = 0"
    using calculate_locals_Some [of inp] by auto
next
  assume z: "production_period_months inp = 0 \<or> depreciation_period_years inp = 0"
  have "calculate_locals inp = None"
  proof (cases "calculate_locals inp")
    case (Some l)
    from calculate_locals_fields(1,2) [OF Some] z show ?thesis by simp
  qed simp
  then show "calculate_costs inp = None" by (simp add: calculate_costs_def)
qed

lemma valid_input_locals:
  assumes "valid_input inp"
  obtains l where "calculate_locals inp = Some l"
proof -
  from assms have "production_period_months inp \<noteq> 0" "depreciation_period_years inp \<noteq> 0"
    by (auto simp: valid_input_def)
  from calculate_locals_Some [OF this] that show thesis by blast
qed


section \<open>Runs on the concrete arguments\<close>

lemma scenario_A_valid: "valid_input scenario_A"
  by (simp add: valid_input_def scenario_A_def)

lemma scenario_A_locals:
  "calculate_locals scenario_A = Some
     \<lparr>locals.annual_glab_capacity = 600, total_optical_modules = 7200,
      monthly_optical_modules = 600, daily_optical_modules = 20,
      production_feasible = True, capacity_shortage = 0,
      optical_block_manufacturing_cost = 201000,
      total_material_cost = 1447200000, total_labor_cost = 40000000,
      total_production_cost = 1493200000, annual_depreciation = 6000000,
      depreciation_cost = 6000000, annual_revenue = 30000000000,
      annual_production_cost = 1493200000, annual_profit = 28506800000,
      profit_margin = 71267 / 750\<rparr>"
  by (simp add: calculate_locals_def scenario_A_def py_truediv_def py_max_def Let_def)

lemma scenario_A_run:
  "calculate_costs scenario_A = Some
     \<lparr>outputs.annual_glab_capacity = 600, total_optical_modules = 7200,
      monthly_optical_modules = 600, daily_optical_modules = 20,
      production_feasible = True, capacity_shortage = 0,
      optical_block_manufacturing_cost = 201000,
      total_material_cost = 1447200000, total_labor_cost = 40000000,
      total_production_cost = 1493200000, annual_depreciation = 6000000,
      depreciation_cost = 6000000, annual_revenue = 30000000000,
      annual_production_cost = 1493200000, annual_profit = 28506800000,
      profit_margin = 71267 / 750\<rparr>"
  by (simp add: calculate_costs_def scenario_A_locals return_dict_def py_int_def)















section \<open>Claims\<close>

subsection \<open>C1: the total production cost\<close>




subsection \<open>C2: production over capacity\<close>




subsection \<open>C3: the default arguments\<close>

text \<open>
  Claim C3. At the Scenario A arguments the function returns 7200 modules, a
  manufacturing cost of 201000 per block, a material cost of 1447200000, a
  labour cost of 40000000, an annual depreciation of 6000000, a total
  production cost of 1493200000, and an annual revenue equal to the floor of
  \<open>7200 * (50000000 / 12)\<close>, which is 30000000000.
\<close>

theorem scenario_A_outputs:
  "\<exists>out. calculate_costs scenario_A = Some out
     \<and> outputs.total_optical_modules out = 7200
     \<and> outputs.optical_block_manufacturing_cost out = 201000
     \<and> outputs.total_material_cost out = 1447200000
     \<and> outputs.total_labor_cost out = 40000000
     \<and> outputs.annual_depreciation out = 6000000
     \<and> outputs.total_production_cost out = 1493200000
     \<and> outputs.annual_revenue out = \<lfloor>7200 * (50000000 / 12 :: real)\<rfloor>
     \<and> outputs.annual_revenue out = 30000000000"
  by (simp add: scenario_A_run)

subsection \<open>C4: the annual profit\<close>




subsection \<open>C5: the profit margin\<close>



text \<open>
  The revenue that decides the guard is the local variable, not the returned
  entry \<open>int(annual_revenue)\<close>. With twelve modules at 1/32 each the revenue is
  0.375: the dictionary holds an \<open>annual_revenue\<close> of 0 next to a
  \<open>profit_margin\<close> of 100.
\<close>

lemma returned_revenue_zero_margin_hundred:
  "valid_input small_revenue_input
   \<and> map_option outputs.annual_revenue (calculate_costs small_revenue_input) = Some 0
   \<and> map_option outputs.profit_margin (calculate_costs small_revenue_input) = Some 100"
  by (simp add: valid_input_def calculate_costs_def calculate_locals_def small_revenue_input_def
        py_truediv_def py_max_def Let_def return_dict_def py_int_def)

subsection \<open>C6: no exception on admissible arguments\<close>



subsection \<open>C7: a higher module price\<close>

text \<open>
  Claim C7. Of two admissible calls that differ only in
  \<open>optical_module_price_won\<close>, the one with the larger price returns an
  \<open>annual_revenue\<close> and an \<open>annual_profit\<close> that are at least those of the other.
\<close>

theorem price_monotone_revenue_profit:
  assumes v: "valid_input inp" and p: "optical_module_price_won inp \<le> p"
  shows "\<exists>out out'. calculate_costs inp = Some out
           \<and> calculate_costs (inp\<lparr>optical_module_price_won := p\<rparr>) = Some out'
           \<and> outputs.annual_revenue out \<le> outputs.annual_revenue out'
           \<and> outputs.annual_profit out \<le> outputs.annual_profit out'"
proof -
  let ?inp' = "inp\<lparr>optical_module_price_won := p\<rparr>"
  from v p have v': "valid_input ?inp'"
    by (simp add: valid_input_def)
  from v obtain l where l: "calculate_locals inp = Some l" by (rule valid_input_locals)
  from v' obtain l' where l': "calculate_locals ?inp' = Some l'" by (rule valid_input_locals)
  note f = calculate_locals_fields [OF l] and f' = calculate_locals_fields [OF l']
  from v have pos: "0 < production_period_months inp" "0 \<le> target_glab_sales inp"
    by (auto simp: valid_input_def)
  have cost: "locals.annual_production_cost l' = locals.annual_production_cost l"
    unfolding f(16) f'(16) f(10) f'(10) f(9) f'(9) f(4) f'(4) f(11) f'(11) f(12) f'(12)
    by simp
  have k: "0 \<le> real_of_int (target_glab_sales inp * 12)
      * (12 / real_of_int (production_period_months inp))"
    using pos by simp
  have rev: "locals.annual_revenue l \<le> locals.annual_revenue l'"
    unfolding f(15) f'(15) f(4) f'(4) using mult_left_mono [OF p k] by simp
  then have prof: "locals.annual_profit l \<le> locals.annual_profit l'"
    unfolding f(17) f'(17) cost by simp
  have "outputs.annual_revenue (return_dict l) \<le> outputs.annual_revenue (return_dict l')"
    using py_int_mono [OF rev] by (simp add: return_dict_def)
  moreover
  have "outputs.annual_profit (return_dict l) \<le> outputs.annual_profit (return_dict l')"
    using py_int_mono [OF prof] by (simp add: return_dict_def)
  ultimately show ?thesis
    using calculate_costs_Some [OF l] calculate_costs_Some [OF l'] by blast
qed

text \<open>The theorem at the default arguments, with the price raised to 5000000.\<close>

theorem price_monotone_revenue_profit_witness:
  "valid_input scenario_A
   \<and> optical_module_price_won scenario_A \<le> 5000000
   \<and> (\<exists>out out'. calculate_costs scenario_A = Some out
         \<and> calculate_costs (scenario_A\<lparr>optical_module_price_won := 5000000\<rparr>) = Some out'
         \<and> outputs.annual_revenue out \<le> outputs.annual_revenue out'
         \<and> outputs.annual_profit out \<le> outputs.annual_profit out')"
proof -
  have h: "optical_module_price_won scenario_A \<le> 5000000"
    by (simp add: scenario_A_def)
  from scenario_A_valid h price_monotone_revenue_profit [OF scenario_A_valid h]
  show ?thesis by blast
qed

subsection \<open>C8: modules per month and per day\<close>



subsection \<open>C9: the number of modules\<close>

text \<open>
  Claim C9. For admissible arguments the returned \<open>total_optical_modules\<close> is
  exactly \<open>target_glab_sales * 12\<close>, a product of integers.
\<close>

theorem total_optical_modules_exact:
  assumes "valid_input inp"
  shows "\<exists>out. calculate_costs inp = Some out
           \<and> outputs.total_optical_modules out = target_glab_sales inp * 12"
proof -
  from assms obtain l where l: "calculate_locals inp = Some l" by (rule valid_input_locals)
  have "outputs.total_optical_modules (return_dict l) = target_glab_sales inp * 12"
    by (simp add: return_dict_def calculate_locals_fields(4) [OF l])
  with calculate_costs_Some [OF l] show ?thesis by simp
qed

theorem total_optical_modules_exact_witness:
  "valid_input scenario_A
   \<and> (\<exists>out. calculate_costs scenario_A = Some out
         \<and> outputs.total_optical_modules out = 7200)"
proof -
  from total_optical_modules_exact [OF scenario_A_valid]
  obtain out where o: "calculate_costs scenario_A = Some out"
      "outputs.total_optical_modules out = target_glab_sales scenario_A * 12"
    by blast
  have "outputs.total_optical_modules out = 7200"
    unfolding o(2) by (simp add: scenario_A_def)
  with scenario_A_valid o(1) show ?thesis by blast
qed

subsection \<open>C10: the capacity that \<open>main\<close> derives\<close>



end
